theory Spec2Isabelle
  imports Complex_Main
begin

section \<open>The circuit canvas: data model\<close>

text \<open>
  The development embeds \<^verbatim>\<open>src/components/CircuitCanvas.tsx\<close>. A JavaScript
  \<^verbatim>\<open>number\<close> is modelled as a \<open>real\<close>: arithmetic is exact, there is no
  rounding and no infinity, and \<^verbatim>\<open>NaN\<close> arises only where a coordinate is read
  from a value that is not a position. The table of node positions is a plain object
  and is read as one, with the members it inherits. The two constant tables of
  \<^verbatim>\<open>drawDevice\<close> are maps from strings: device types are taken not to name a
  property that a plain object inherits (\<^verbatim>\<open>constructor\<close>, \<^verbatim>\<open>toString\<close>, ...).
  Inputs have the shape of the TypeScript interfaces.

  \<^verbatim>\<open>Position\<close> has the fields \<^verbatim>\<open>x\<close>, \<^verbatim>\<open>y\<close>, \<^verbatim>\<open>z\<close>; \<^verbatim>\<open>drawDevice\<close>
  also reads \<^verbatim>\<open>position["scaleFactor"]\<close>, which the interface does not declare, so it
  is an optional field here. The coordinate fields carry the prefix \<open>pos_\<close> because the
  pan offset has fields \<^verbatim>\<open>x\<close> and \<^verbatim>\<open>y\<close> as well.
\<close>

record position =
  pos_x :: real
  pos_y :: real
  pos_z :: real
  scaleFactor :: "real option"

record device =
  nodes :: "string list"
  deviceId :: string
  position :: position
  rotation :: real
  deviceType :: string

record wire =
  nodes :: "string list"
  wireId :: string

record circuitData =
  devices :: "device list"
  wires :: "wire list"

text \<open>The pan offset and the drag anchor, \<^verbatim>\<open>{ x, y }\<close> in the source.\<close>

record point =
  pt_x :: real
  pt_y :: real

text \<open>
  The component state (the \<^verbatim>\<open>useState\<close> cells): \<^verbatim>\<open>scale\<close> is the zoom,
  \<^verbatim>\<open>rotation\<close> the view quadrant in degrees. The cell \<^verbatim>\<open>canvasSize\<close> only
  sizes the canvas element; that size is the width and height of the drawing surface
  below.
\<close>

record view =
  scale :: real
  pan :: point
  isDragging :: bool
  dragStart :: point
  rotation :: real
  globalScaleFactor :: real

definition initialView :: "real \<Rightarrow> view" where
  "initialView initialScaleFactor =
     \<lparr>scale = 1, pan = \<lparr>pt_x = 0, pt_y = 0\<rparr>, isDragging = False,
      dragStart = \<lparr>pt_x = 0, pt_y = 0\<rparr>, rotation = 0,
      globalScaleFactor = initialScaleFactor\<rparr>"

section \<open>Strings and numbers of the host language\<close>

text \<open>
  \<^verbatim>\<open>String.prototype.toLowerCase\<close>, on the letters A to Z. No character outside
  ASCII lower-cases to a single ASCII letter of \<^verbatim>\<open>junction\<close>, so the comparison
  with that literal is decided by this part of the function.
\<close>

definition toLowerChar :: "char \<Rightarrow> char" where
  "toLowerChar c =
     (case map_of (zip ''ABCDEFGHIJKLMNOPQRSTUVWXYZ'' ''abcdefghijklmnopqrstuvwxyz'') c of
        Some l \<Rightarrow> l
      | None \<Rightarrow> c)"

definition toLowerCase :: "string \<Rightarrow> string" where
  "toLowerCase s = map toLowerChar s"

text \<open>
  The remainder operator \<^verbatim>\<open>%\<close>: the quotient is truncated towards zero, so the
  result has the sign of the dividend.
\<close>

definition jsTrunc :: "real \<Rightarrow> int" where
  "jsTrunc a = (if 0 \<le> a then \<lfloor>a\<rfloor> else \<lceil>a\<rceil>)"

definition jsRem :: "real \<Rightarrow> real \<Rightarrow> real" where
  "jsRem a b = a - b * of_int (jsTrunc (a / b))"

section \<open>Interaction handlers\<close>

text \<open>
  \<^verbatim>\<open>handleWheel\<close>: \<^verbatim>\<open>direction = e.deltaY > 0 ? -1 : 1\<close>, then
  \<^verbatim>\<open>setScale(s => Math.max(0.1, Math.min(10, s + direction * zoomFactor)))\<close>.
\<close>

definition zoomFactor :: real where
  "zoomFactor = 0.05"

definition wheelDirection :: "real \<Rightarrow> real" where
  "wheelDirection deltaY = (if deltaY > 0 then - 1 else 1)"

definition handleWheel :: "real \<Rightarrow> view \<Rightarrow> view" where
  "handleWheel deltaY v =
     v\<lparr>scale := max 0.1 (min 10 (scale v + wheelDirection deltaY * zoomFactor))\<rparr>"

text \<open>\<^verbatim>\<open>handleRotate\<close>: \<^verbatim>\<open>setRotation(prev => (prev + 90) % 360)\<close>.\<close>

definition handleRotate :: "view \<Rightarrow> view" where
  "handleRotate v = v\<lparr>rotation := jsRem (rotation v + 90) 360\<rparr>"

text \<open>The mouse handlers; the arguments are \<^verbatim>\<open>e.clientX\<close> and \<^verbatim>\<open>e.clientY\<close>.\<close>

definition handleMouseDown :: "real \<Rightarrow> real \<Rightarrow> view \<Rightarrow> view" where
  "handleMouseDown clientX clientY v =
     v\<lparr>isDragging := True,
       dragStart := \<lparr>pt_x = clientX - pt_x (pan v), pt_y = clientY - pt_y (pan v)\<rparr>\<rparr>"

definition handleMouseMove :: "real \<Rightarrow> real \<Rightarrow> view \<Rightarrow> view" where
  "handleMouseMove clientX clientY v =
     (if isDragging v
      then v\<lparr>pan := \<lparr>pt_x = clientX - pt_x (dragStart v),
                      pt_y = clientY - pt_y (dragStart v)\<rparr>\<rparr>
      else v)"

definition handleMouseUp :: "view \<Rightarrow> view" where
  "handleMouseUp v = v\<lparr>isDragging := False\<rparr>"

text \<open>
  Modelled from the spec: the \<^verbatim>\<open>Slider\<close> control of
  \<^verbatim>\<open>@/components/ui/slider\<close>, which is not among the sources. The canvas mounts it
  with \<^verbatim>\<open>min={1000}\<close>, \<^verbatim>\<open>max={15000}\<close> and \<^verbatim>\<open>step={100}\<close>. The specification
  says that the control yields a caller-chosen value in \<open>[1000, 15000]\<close> and that
  requests below 1000 or above 15000 clamp exactly to those bounds; it gives the step
  no meaning, and neither does this definition, which takes it only because the source
  passes it. The result is the value handed to \<^verbatim>\<open>onValueChange\<close>.
\<close>

definition Slider :: "real \<Rightarrow> real \<Rightarrow> real \<Rightarrow> real \<Rightarrow> real" where
  "Slider minV maxV stepV requested = max minV (min maxV requested)"

text \<open>
  From the source: \<^verbatim>\<open>onValueChange={([value]) => setGlobalScaleFactor(value)}\<close>
  stores what the control reports, unchanged.
\<close>

definition setGlobalScaleFactor :: "real \<Rightarrow> view \<Rightarrow> view" where
  "setGlobalScaleFactor value v = v\<lparr>globalScaleFactor := value\<rparr>"

definition scaleFactorControl :: "real \<Rightarrow> view \<Rightarrow> view" where
  "scaleFactorControl requested v =
     setGlobalScaleFactor (Slider 1000 15000 100 requested) v"

text \<open>The events of the component and the state after a sequence of them.\<close>

datatype event =
    Wheel real
  | MouseDown real real
  | MouseMove real real
  | MouseUp
  | MouseLeave
  | RotateClick
  | SliderRequest real

fun handleEvent :: "view \<Rightarrow> event \<Rightarrow> view" where
  "handleEvent v (Wheel deltaY) = handleWheel deltaY v"
| "handleEvent v (MouseDown cx cy) = handleMouseDown cx cy v"
| "handleEvent v (MouseMove cx cy) = handleMouseMove cx cy v"
| "handleEvent v MouseUp = handleMouseUp v"
| "handleEvent v MouseLeave = handleMouseUp v"
| "handleEvent v RotateClick = handleRotate v"
| "handleEvent v (SliderRequest r) = scaleFactorControl r v"

definition runEvents :: "view \<Rightarrow> event list \<Rightarrow> view" where
  "runEvents v es = foldl handleEvent v es"

section \<open>Node resolution\<close>

definition isJunction :: "device \<Rightarrow> bool" where
  "isJunction d \<longleftrightarrow> toLowerCase (deviceType d) = ''junction''"

text \<open>
  \<^verbatim>\<open>calculateNodePositions\<close>: both \<^verbatim>\<open>forEach\<close> loops run front to back and a
  later junction overwrites the entry of an earlier one. The result records the
  assignments \<^verbatim>\<open>nodePositions[nodeId] = device.position\<close> made on the object that
  starts as \<^verbatim>\<open>{}\<close>. An assignment to a key other than \<^verbatim>\<open>__proto__\<close> creates or
  replaces an own property, also where the object inherits a member of that name. An
  assignment to \<^verbatim>\<open>__proto__\<close> runs the inherited setter and makes the position the
  prototype of the table; the entry at that key stands for this prototype. What a read
  of the table yields is \<open>nodePositionsGet\<close> below.
\<close>

definition calculateNodePositions :: "device list \<Rightarrow> (string \<rightharpoonup> position)" where
  "calculateNodePositions ds =
     foldl (\<lambda>nodePositions d.
              foldl (\<lambda>np nodeId.
                       if isJunction d then np(nodeId \<mapsto> position d) else np)
                    nodePositions (device.nodes d))
           Map.empty ds"

text \<open>
  The values that a read of the table can yield: \<^verbatim>\<open>undefined\<close>, a number, a position
  object, and any other object (a function inherited from \<^verbatim>\<open>Object.prototype\<close>, or
  that prototype itself).
\<close>

datatype jsValue =
    JsUndefined
  | JsNumber real
  | JsPosition position
  | JsOther

fun truthy :: "jsValue \<Rightarrow> bool" where
  "truthy JsUndefined = False"
| "truthy (JsNumber r) = (r \<noteq> 0)"
| "truthy (JsPosition p) = True"
| "truthy JsOther = True"

text \<open>The operator \<^verbatim>\<open>||\<close>.\<close>

definition orElse :: "jsValue \<Rightarrow> jsValue \<Rightarrow> jsValue" where
  "orElse a b = (if truthy a then a else b)"

text \<open>The property names of \<^verbatim>\<open>Object.prototype\<close>; every one of them reads as an object.\<close>

definition objectPrototypeKeys :: "string list" where
  "objectPrototypeKeys =
     [''constructor'', ''__defineGetter__'', ''__defineSetter__'', ''hasOwnProperty'',
      ''__lookupGetter__'', ''__lookupSetter__'', ''isPrototypeOf'',
      ''propertyIsEnumerable'', ''toString'', ''valueOf'', ''__proto__'',
      ''toLocaleString'']"

definition objectPrototypeGet :: "string \<Rightarrow> jsValue" where
  "objectPrototypeGet key = (if key \<in> set objectPrototypeKeys then JsOther else JsUndefined)"

text \<open>
  A read \<^verbatim>\<open>position[key]\<close> of a position object: its own properties are its
  coordinates and, when present, its scale factor; every other key is looked up in
  \<^verbatim>\<open>Object.prototype\<close>.
\<close>

definition positionGet :: "position \<Rightarrow> string \<Rightarrow> jsValue" where
  "positionGet p key =
     (if key = ''x'' then JsNumber (pos_x p)
      else if key = ''y'' then JsNumber (pos_y p)
      else if key = ''z'' then JsNumber (pos_z p)
      else if key = ''scaleFactor'' then
        (case scaleFactor p of Some f \<Rightarrow> JsNumber f | None \<Rightarrow> JsUndefined)
      else objectPrototypeGet key)"

text \<open>
  A read \<^verbatim>\<open>nodePositions[key]\<close>: an own property when one was assigned; otherwise
  the key is looked up along the prototype chain, which is the position assigned to
  \<^verbatim>\<open>__proto__\<close> when there was such an assignment, and then \<^verbatim>\<open>Object.prototype\<close>.
  A read of \<^verbatim>\<open>__proto__\<close> itself yields the prototype.
\<close>

definition nodePositionsGet :: "(string \<rightharpoonup> position) \<Rightarrow> string \<Rightarrow> jsValue" where
  "nodePositionsGet nodePositions key =
     (case nodePositions key of
        Some p \<Rightarrow> JsPosition p
      | None \<Rightarrow>
          (case nodePositions ''__proto__'' of
             Some proto \<Rightarrow> positionGet proto key
           | None \<Rightarrow> objectPrototypeGet key))"

section \<open>The drawing surface\<close>

text \<open>
  The 2D context is modelled by the sequence of calls and property writes it has
  received, oldest first, together with the pixel size of its canvas. A font is the
  pixel size of \<^verbatim>\<open>bold ...px -apple-system, BlinkMacSystemFont, sans-serif\<close>.
  \<open>MoveToNaN\<close> and \<open>LineToNaN\<close> are the calls \<^verbatim>\<open>moveTo(NaN, NaN)\<close> and
  \<^verbatim>\<open>lineTo(NaN, NaN)\<close>.
\<close>

datatype canvasOp =
    ClearRect real real real real
  | FillStyle string
  | FillRect real real real real
  | Save
  | Restore
  | Translate real real
  | Rotate real
  | ShadowColor string
  | ShadowBlur real
  | ShadowOffsetY real
  | BeginPath
  | ClosePath
  | MoveTo real real
  | LineTo real real
  | MoveToNaN
  | LineToNaN
  | ArcTo real real real real real
  | Arc real real real real real
  | Fill
  | Stroke
  | StrokeStyle string
  | LineWidth real
  | Font real
  | TextAlign string
  | TextBaseline string
  | FillText string real real

record canvas =
  width :: nat
  height :: nat
  ops :: "canvasOp list"

definition emit :: "canvas \<Rightarrow> canvasOp list \<Rightarrow> canvas" where
  "emit ctx new = ctx\<lparr>ops := ops ctx @ new\<rparr>"

text \<open>
  The two lookup tables of the component. A colour entry is the pair of its
  \<^verbatim>\<open>fill\<close> and its \<^verbatim>\<open>stroke\<close>; a glyph is written as its UTF-8 bytes.
\<close>

definition deviceColors :: "string \<rightharpoonup> string \<times> string" where
  "deviceColors = map_of
     [(''resistor'', (''#0a84ff'', ''#5ac8fa'')),
      (''capacitor'', (''#5ac8fa'', ''#0a84ff'')),
      (''inductor'', (''#cc7ef5'', ''#5ac8fa'')),
      (''voltage_source'', (''#ff9f0a'', ''#cc7ef5'')),
      (''current_source'', (''#ff9f0a'', ''#0a84ff'')),
      (''ground'', (''#8e8e93'', ''#ffffff'')),
      (''junction'', (''#d1d1d6'', ''#ffffff'')),
      (''default'', (''#ffffff'', ''#d1d1d6''))]"

definition utf8 :: "nat list \<Rightarrow> string" where
  "utf8 bytes = map char_of bytes"

definition componentEmojis :: "string \<rightharpoonup> string" where
  "componentEmojis = map_of
     [(''resistor'', utf8 [226, 154, 161]),
      (''capacitor'', utf8 [240, 159, 148, 139]),
      (''inductor'', utf8 [240, 159, 140, 128]),
      (''voltage_source'', utf8 [226, 154, 161]),
      (''current_source'', utf8 [226, 134, 175]),
      (''ground'', utf8 [226, 143, 154]),
      (''junction'', utf8 [226, 151, 137]),
      (''default'', utf8 [226, 154, 161])]"

text \<open>\<^verbatim>\<open>table[key] || table.default\<close>; every entry of either table is truthy.\<close>

definition orDefault :: "(string \<rightharpoonup> 'a) \<Rightarrow> string \<Rightarrow> 'a option" where
  "orDefault table key = (case table key of Some e \<Rightarrow> Some e | None \<Rightarrow> table ''default'')"

text \<open>
  \<^verbatim>\<open>drawCheckerPattern\<close>: the inner loop over \<open>y\<close> and the outer loop over \<open>x\<close>,
  both in steps of \<^verbatim>\<open>squareSize\<close>. The sum \<open>x + y\<close> is a multiple of the tile
  size, so the quotient is an integer.
\<close>

definition squareSize :: nat where
  "squareSize = 20"

function checkerColumn :: "nat \<Rightarrow> nat \<Rightarrow> nat \<Rightarrow> canvasOp list \<Rightarrow> canvasOp list" where
  "checkerColumn h px y done =
     (if y < h
      then checkerColumn h px (y + squareSize)
             (done @
                [FillStyle (if ((px + y) div squareSize) mod 2 = 0
                            then ''#2c2c2e'' else ''#1c1c1e''),
                 FillRect (real px) (real y) (real squareSize) (real squareSize)])
      else done)"
  by pat_completeness auto
termination
  by (relation "measure (\<lambda>(h, px, y, done). h - y)") (auto simp: squareSize_def)

function checkerRows :: "nat \<Rightarrow> nat \<Rightarrow> nat \<Rightarrow> canvasOp list \<Rightarrow> canvasOp list" where
  "checkerRows w h px done =
     (if px < w
      then checkerRows w h (px + squareSize) (checkerColumn h px 0 done)
      else done)"
  by pat_completeness auto
termination
  by (relation "measure (\<lambda>(w, h, px, done). w - px)") (auto simp: squareSize_def)

definition drawCheckerPattern :: "canvas \<Rightarrow> canvas" where
  "drawCheckerPattern ctx = ctx\<lparr>ops := checkerRows (width ctx) (height ctx) 0 (ops ctx)\<rparr>"

section \<open>Placing and drawing a device\<close>

text \<open>
  \<^verbatim>\<open>const scaleFactor = device.position["scaleFactor"] || 1\<close>: the operator
  \<^verbatim>\<open>||\<close> takes its right operand when the left one is falsy, which for a number is
  the case when the field is absent and when it is zero.
\<close>

definition localScaleFactor :: "device \<Rightarrow> real" where
  "localScaleFactor d =
     (case scaleFactor (position d) of
        None \<Rightarrow> 1
      | Some f \<Rightarrow> if f = 0 then 1 else f)"

text \<open>
  The screen position of a device: the first half of \<^verbatim>\<open>drawDevice\<close>, up to the
  \<^verbatim>\<open>switch (rotation)\<close>. The products associate to the left, as in the source.
\<close>

definition deviceScreen :: "view \<Rightarrow> real \<Rightarrow> device \<Rightarrow> real \<times> real" where
  "deviceScreen v baseScale d =
     (let sf = localScaleFactor d;
          scaledX = pos_x (position d) * globalScaleFactor v;
          scaledZ = pos_z (position d) * globalScaleFactor v
      in if rotation v = 0 then
           (scaledX * baseScale * scale v * sf + pt_x (pan v),
            scaledZ * baseScale * scale v * sf + pt_y (pan v))
         else if rotation v = 90 then
           (- scaledZ * baseScale * scale v * sf + pt_x (pan v),
            scaledX * baseScale * scale v * sf + pt_y (pan v))
         else if rotation v = 180 then
           (- scaledX * baseScale * scale v * sf + pt_x (pan v),
            - scaledZ * baseScale * scale v * sf + pt_y (pan v))
         else if rotation v = 270 then
           (scaledZ * baseScale * scale v * sf + pt_x (pan v),
            - scaledX * baseScale * scale v * sf + pt_y (pan v))
         else
           (scaledX * baseScale * scale v * sf + pt_x (pan v),
            scaledZ * baseScale * scale v * sf + pt_y (pan v)))"

text \<open>
  The rounded box with its label, drawn around the origin of the translated context.
  The width of the label comes from \<^verbatim>\<open>ctx.measureText\<close>, a function of the font
  size and the text that the browser supplies.
\<close>

definition boxOps :: "(real \<Rightarrow> string \<Rightarrow> real) \<Rightarrow> view \<Rightarrow> device \<Rightarrow> string \<times> string \<Rightarrow> real \<Rightarrow> canvasOp list" where
  "boxOps measureText v d colors size' =
     (let boxWidth = size' * 2.5;
          boxHeight = size' * 1.2;
          radius = 12 * scale v;
          emoji = (case orDefault componentEmojis (toLowerCase (deviceType d)) of
                     Some e \<Rightarrow> e | None \<Rightarrow> []);
          text = emoji @ '' '' @ deviceType d;
          textWidth = measureText (18 * scale v) text;
          textHeight = 24 * scale v;
          padding = 8 * scale v
      in [ShadowColor ''rgba(0, 0, 0, 0.2)'',
          ShadowBlur (10 * scale v),
          ShadowOffsetY (4 * scale v),
          BeginPath,
          MoveTo (- boxWidth / 2 + radius) (- boxHeight / 2),
          LineTo (boxWidth / 2 - radius) (- boxHeight / 2),
          ArcTo (boxWidth / 2) (- boxHeight / 2) (boxWidth / 2) (- boxHeight / 2 + radius) radius,
          LineTo (boxWidth / 2) (boxHeight / 2 - radius),
          ArcTo (boxWidth / 2) (boxHeight / 2) (boxWidth / 2 - radius) (boxHeight / 2) radius,
          LineTo (- boxWidth / 2 + radius) (boxHeight / 2),
          ArcTo (- boxWidth / 2) (boxHeight / 2) (- boxWidth / 2) (boxHeight / 2 - radius) radius,
          LineTo (- boxWidth / 2) (- boxHeight / 2 + radius),
          ArcTo (- boxWidth / 2) (- boxHeight / 2) (- boxWidth / 2 + radius) (- boxHeight / 2) radius,
          ClosePath,
          FillStyle (fst colors),
          Fill,
          ShadowColor ''transparent'',
          StrokeStyle (snd colors),
          LineWidth (3 * scale v),
          Stroke,
          Rotate (- (device.rotation d * pi) / 180),
          Font (18 * scale v),
          FillStyle ''rgba(0, 0, 0, 0.5)'',
          FillRect (- textWidth / 2 - padding) (- textHeight / 2 - padding / 2)
                   (textWidth + padding * 2) (textHeight + padding),
          FillStyle ''#ffffff'',
          TextAlign ''center'',
          TextBaseline ''middle'',
          FillText text 0 0])"

definition junctionOps :: "view \<Rightarrow> string \<times> string \<Rightarrow> real \<Rightarrow> canvasOp list" where
  "junctionOps v colors size' =
     [BeginPath,
      Arc 0 0 (size' / 4) 0 (pi * 2),
      FillStyle (fst colors),
      Fill,
      StrokeStyle (snd colors),
      LineWidth (2 * scale v),
      Stroke]"

text \<open>\<^verbatim>\<open>drawDevice\<close>; its parameter \<^verbatim>\<open>nodePositions\<close> is never read. The local \<^verbatim>\<open>size\<close> is \<open>size'\<close> here.\<close>

definition drawDevice :: "(real \<Rightarrow> string \<Rightarrow> real) \<Rightarrow> view \<Rightarrow> canvas \<Rightarrow> device \<Rightarrow> (string \<rightharpoonup> position) \<Rightarrow> real \<Rightarrow> canvas" where
  "drawDevice measureText v ctx d nodePositions baseScale =
     (let (screenX, screenY) = deviceScreen v baseScale d;
          colors = (case orDefault deviceColors (toLowerCase (deviceType d)) of
                      Some c \<Rightarrow> c | None \<Rightarrow> ([], []));
          size' = (if isJunction d then 20 else 80) * scale v
      in emit ctx
           ([Save,
             Translate screenX screenY,
             Rotate ((device.rotation d * pi) / 180)]
            @ (if \<not> isJunction d
               then boxOps measureText v d colors size'
               else junctionOps v colors size')
            @ [Restore]))"

section \<open>Resolving and drawing a wire\<close>

text \<open>\<^verbatim>\<open>devices.find((d) => d.nodes.includes(nodeId))\<close>: the first such device.\<close>

definition findDevice :: "device list \<Rightarrow> string \<Rightarrow> device option" where
  "findDevice ds nodeId = find (\<lambda>d. nodeId \<in> set (device.nodes d)) ds"

text \<open>
  The positions of the two ends of a wire: the first half of \<^verbatim>\<open>drawWire\<close>.
  \<^verbatim>\<open>const [startNodeId, endNodeId] = wire.nodes\<close> leaves an identifier undefined when
  the array is shorter than two; no list of node identifiers includes the undefined
  value, so \<^verbatim>\<open>find\<close> fails and the function returns, which is the last case here.
  \<open>None\<close> is the early \<^verbatim>\<open>return\<close>. Either end is
  \<^verbatim>\<open>nodePositions[id] || device.position\<close>: what the table yields when that is
  truthy, and the position of the device found otherwise.
\<close>

definition wireEndpoints :: "device list \<Rightarrow> (string \<rightharpoonup> position) \<Rightarrow> wire \<Rightarrow> (jsValue \<times> jsValue) option" where
  "wireEndpoints ds nodePositions w =
     (case wire.nodes w of
        startNodeId # endNodeId # _ \<Rightarrow>
          (case (findDevice ds startNodeId, findDevice ds endNodeId) of
             (Some startDevice, Some endDevice) \<Rightarrow>
               Some (orElse (nodePositionsGet nodePositions startNodeId)
                            (JsPosition (position startDevice)),
                     orElse (nodePositionsGet nodePositions endNodeId)
                            (JsPosition (position endDevice)))
           | _ \<Rightarrow> None)
      | _ \<Rightarrow> None)"

text \<open>
  The screen points of the two ends: the \<^verbatim>\<open>switch (rotation)\<close> of \<^verbatim>\<open>drawWire\<close>.
  The four \<^verbatim>\<open>norm...\<close> constants of the source are never read and are left out.
\<close>

definition wireScreen :: "view \<Rightarrow> real \<Rightarrow> position \<Rightarrow> position \<Rightarrow> (real \<times> real) \<times> (real \<times> real)" where
  "wireScreen v baseScale startPos endPos =
     (let startScaledX = pos_x startPos * globalScaleFactor v;
          startScaledZ = pos_z startPos * globalScaleFactor v;
          endScaledX = pos_x endPos * globalScaleFactor v;
          endScaledZ = pos_z endPos * globalScaleFactor v
      in if rotation v = 0 then
           ((startScaledX * baseScale * scale v + pt_x (pan v),
             startScaledZ * baseScale * scale v + pt_y (pan v)),
            (endScaledX * baseScale * scale v + pt_x (pan v),
             endScaledZ * baseScale * scale v + pt_y (pan v)))
         else if rotation v = 90 then
           ((- startScaledZ * baseScale * scale v + pt_x (pan v),
             startScaledX * baseScale * scale v + pt_y (pan v)),
            (- endScaledZ * baseScale * scale v + pt_x (pan v),
             endScaledX * baseScale * scale v + pt_y (pan v)))
         else if rotation v = 180 then
           ((- startScaledX * baseScale * scale v + pt_x (pan v),
             - startScaledZ * baseScale * scale v + pt_y (pan v)),
            (- endScaledX * baseScale * scale v + pt_x (pan v),
             - endScaledZ * baseScale * scale v + pt_y (pan v)))
         else if rotation v = 270 then
           ((startScaledZ * baseScale * scale v + pt_x (pan v),
             - startScaledX * baseScale * scale v + pt_y (pan v)),
            (endScaledZ * baseScale * scale v + pt_x (pan v),
             - endScaledX * baseScale * scale v + pt_y (pan v)))
         else
           ((startScaledX * baseScale * scale v + pt_x (pan v),
             startScaledZ * baseScale * scale v + pt_y (pan v)),
            (endScaledX * baseScale * scale v + pt_x (pan v),
             endScaledZ * baseScale * scale v + pt_y (pan v))))"

text \<open>
  The two calls that trace the segment. When both ends are positions the screen points
  are those of \<open>wireScreen\<close>. A value that is not a position has neither \<^verbatim>\<open>x\<close> nor
  \<^verbatim>\<open>z\<close>, so its scaled coordinates are \<^verbatim>\<open>NaN\<close> and so are both of its screen
  coordinates in every branch of the switch. The switch computes the start point from
  \<^verbatim>\<open>startPos\<close> alone and the end point from \<^verbatim>\<open>endPos\<close> alone; where only one
  end is a position, its point is read off \<open>wireScreen\<close> with that position at both
  ends.
\<close>

definition segmentOps :: "view \<Rightarrow> real \<Rightarrow> jsValue \<Rightarrow> jsValue \<Rightarrow> canvasOp list" where
  "segmentOps v baseScale startPos endPos =
     (case (startPos, endPos) of
        (JsPosition sp, JsPosition ep) \<Rightarrow>
          (let ((screenStartX, screenStartY), (screenEndX, screenEndY)) =
                 wireScreen v baseScale sp ep
           in [MoveTo screenStartX screenStartY, LineTo screenEndX screenEndY])
      | (JsPosition sp, _) \<Rightarrow>
          (let ((screenStartX, screenStartY), _) = wireScreen v baseScale sp sp
           in [MoveTo screenStartX screenStartY, LineToNaN])
      | (_, JsPosition ep) \<Rightarrow>
          (let (_, (screenEndX, screenEndY)) = wireScreen v baseScale ep ep
           in [MoveToNaN, LineTo screenEndX screenEndY])
      | _ \<Rightarrow> [MoveToNaN, LineToNaN])"

definition drawWire :: "view \<Rightarrow> canvas \<Rightarrow> wire \<Rightarrow> device list \<Rightarrow> (string \<rightharpoonup> position) \<Rightarrow> real \<Rightarrow> canvas" where
  "drawWire v ctx w ds nodePositions baseScale =
     (case wireEndpoints ds nodePositions w of
        None \<Rightarrow> ctx
      | Some (startPos, endPos) \<Rightarrow>
          emit ctx
            ([BeginPath]
             @ segmentOps v baseScale startPos endPos
             @ [StrokeStyle ''#0a84ff'',
                LineWidth (2 * scale v),
                Stroke]))"

section \<open>A frame\<close>

definition baseScaleOf :: "canvas \<Rightarrow> real" where
  "baseScaleOf c = min (real (width c) / 1000) (real (height c) / 1000) * 0.9"

text \<open>
  \<^verbatim>\<open>draw\<close>. A missing canvas or a canvas without a 2D context is \<open>None\<close>, and so is
  \<^verbatim>\<open>circuitData === null\<close>; in each of these cases nothing is drawn.
\<close>

definition draw :: "(real \<Rightarrow> string \<Rightarrow> real) \<Rightarrow> view \<Rightarrow> canvas option \<Rightarrow> circuitData option \<Rightarrow> canvas option" where
  "draw measureText v canvasRef data =
     (case (canvasRef, data) of
        (Some c, Some cd) \<Rightarrow>
          (let ctx0 = emit c [ClearRect 0 0 (real (width c)) (real (height c))];
               ctx1 = drawCheckerPattern ctx0;
               baseScale = baseScaleOf c;
               nodePositions = calculateNodePositions (devices cd);
               ctx2 = foldl (\<lambda>ctx w. drawWire v ctx w (devices cd) nodePositions baseScale)
                            ctx1 (wires cd);
               ctx3 = foldl (\<lambda>ctx d. drawDevice measureText v ctx d nodePositions baseScale)
                            ctx2 (devices cd)
           in Some ctx3)
      | _ \<Rightarrow> canvasRef)"

section \<open>The statements of the specification\<close>

text \<open>
  The transform as the specification words it: \<open>scaledX = x * g\<close>, \<open>scaledZ = z * g\<close>,
  \<open>k = b * s * f\<close>, and one pair of screen coordinates for each of the four quadrants.
\<close>

definition specTransform :: "real \<Rightarrow> real \<Rightarrow> point \<Rightarrow> real \<Rightarrow> real \<Rightarrow> real \<Rightarrow> position \<Rightarrow> real \<times> real" where
  "specTransform q s p b g f pos =
     (let scaledX = pos_x pos * g;
          scaledZ = pos_z pos * g;
          k = b * s * f
      in if q = 0 then (scaledX * k + pt_x p, scaledZ * k + pt_y p)
         else if q = 90 then (- scaledZ * k + pt_x p, scaledX * k + pt_y p)
         else if q = 180 then (- scaledX * k + pt_x p, - scaledZ * k + pt_y p)
         else (scaledZ * k + pt_x p, - scaledX * k + pt_y p))"

text \<open>
  The local factor of a device as the specification words it: the field
  \<^verbatim>\<open>position.scaleFactor\<close>, and 1 when the field is absent.
\<close>

definition specLocalFactor :: "device \<Rightarrow> real" where
  "specLocalFactor d = (case scaleFactor (position d) of None \<Rightarrow> 1 | Some f \<Rightarrow> f)"

definition quadrants :: "real set" where
  "quadrants = {0, 90, 180, 270}"

text \<open>The Euclidean distance of a screen point from the pan origin.\<close>

definition offsetMagnitude :: "point \<Rightarrow> real \<times> real \<Rightarrow> real" where
  "offsetMagnitude p sp = sqrt ((fst sp - pt_x p)\<^sup>2 + (snd sp - pt_y p)\<^sup>2)"

text \<open>
  How the specification says a node identifier is resolved against a device list: to
  the position of a junction listing it when there is one, otherwise to the position
  of the first device listing it.
\<close>

definition listedBy :: "string \<Rightarrow> device \<Rightarrow> bool" where
  "listedBy n d \<longleftrightarrow> n \<in> set (device.nodes d)"

definition junctionListing :: "device list \<Rightarrow> string \<Rightarrow> device \<Rightarrow> bool" where
  "junctionListing ds n j \<longleftrightarrow> j \<in> set ds \<and> isJunction j \<and> listedBy n j"

definition firstListing :: "device list \<Rightarrow> string \<Rightarrow> nat \<Rightarrow> bool" where
  "firstListing ds n i \<longleftrightarrow>
     i < length ds \<and> listedBy n (ds ! i) \<and> (\<forall>k < i. \<not> listedBy n (ds ! k))"

definition resolvesTo :: "device list \<Rightarrow> string \<Rightarrow> position \<Rightarrow> bool" where
  "resolvesTo ds n p \<longleftrightarrow>
     (if \<exists>j \<in> set ds. junctionListing ds n j
      then \<exists>j \<in> set ds. junctionListing ds n j \<and> p = position j
      else \<exists>i < length ds. firstListing ds n i \<and> p = position (ds ! i))"

text \<open>A wire is dangling when one of its two ends is listed by no device.\<close>

definition dangling :: "device list \<Rightarrow> wire \<Rightarrow> bool" where
  "dangling ds w \<longleftrightarrow> (\<exists>n \<in> set (take 2 (wire.nodes w)). \<forall>d \<in> set ds. \<not> listedBy n d)"

section \<open>Example inputs\<close>

text \<open>A resistor at \<open>(1, 0)\<close> whose position carries the scale factor 0.\<close>

definition zeroFactorDevice :: device where
  "zeroFactorDevice =
     \<lparr>device.nodes = [''n1''], deviceId = ''D1'',
      position = \<lparr>pos_x = 1, pos_y = 0, pos_z = 0, scaleFactor = Some 0\<rparr>,
      rotation = 0, deviceType = ''resistor''\<rparr>"

text \<open>A resistor at \<open>(1, 0)\<close> without a scale factor, and a canvas of height zero.\<close>

definition plainDevice :: device where
  "plainDevice =
     \<lparr>device.nodes = [''n1''], deviceId = ''D2'',
      position = \<lparr>pos_x = 1, pos_y = 0, pos_z = 0, scaleFactor = None\<rparr>,
      rotation = 0, deviceType = ''resistor''\<rparr>"

definition flatCanvas :: canvas where
  "flatCanvas = \<lparr>width = 800, height = 0, ops = []\<rparr>"

text \<open>
  The devices and the wire of the example scenario of the specification. Its positions
  give no \<^verbatim>\<open>y\<close>, which nothing reads; it is a parameter here. The loose wire ends
  on a node that no device lists.
\<close>

definition scenarioR1 :: "real \<Rightarrow> device" where
  "scenarioR1 y =
     \<lparr>device.nodes = [''n1'', ''n2''], deviceId = ''R1'',
      position = \<lparr>pos_x = 1, pos_y = y, pos_z = 0, scaleFactor = None\<rparr>,
      rotation = 0, deviceType = ''resistor''\<rparr>"

definition scenarioJ1 :: "real \<Rightarrow> device" where
  "scenarioJ1 y =
     \<lparr>device.nodes = [''n1''], deviceId = ''J1'',
      position = \<lparr>pos_x = 1, pos_y = y, pos_z = 0, scaleFactor = None\<rparr>,
      rotation = 0, deviceType = ''junction''\<rparr>"

definition scenarioW1 :: wire where
  "scenarioW1 = \<lparr>wire.nodes = [''n1'', ''n2''], wireId = ''W1''\<rparr>"

definition looseWire :: wire where
  "looseWire = \<lparr>wire.nodes = [''n1'', ''n9''], wireId = ''W2''\<rparr>"

definition smallCanvas :: canvas where
  "smallCanvas = \<lparr>width = 1000, height = 1000, ops = []\<rparr>"

text \<open>
  A resistor whose first node is named \<^verbatim>\<open>toString\<close>, and a wire between its two
  nodes. There is no junction.
\<close>

definition inheritedKeyDevice :: device where
  "inheritedKeyDevice =
     \<lparr>device.nodes = [''toString'', ''n2''], deviceId = ''R1'',
      position = \<lparr>pos_x = 1, pos_y = 0, pos_z = 0, scaleFactor = None\<rparr>,
      rotation = 0, deviceType = ''resistor''\<rparr>"

definition inheritedKeyWire :: wire where
  "inheritedKeyWire = \<lparr>wire.nodes = [''toString'', ''n2''], wireId = ''W1''\<rparr>"

section \<open>The scale-factor control and the wheel\<close>

text \<open>
  Claim C2. Whatever value is requested, the scale-factor control stores the request
  clamped to \<open>[1000, 15000]\<close>: a request below 1000 is stored as exactly 1000, one
  above 15000 as exactly 15000, and one inside the interval as it is. The clamping is
  that of the slider control, which is modelled from the specification; the handler of
  the source stores the reported value unchanged.
\<close>

theorem scaleFactorControl_clamps:
  "globalScaleFactor (scaleFactorControl r v) = max 1000 (min 15000 r)
   \<and> 1000 \<le> globalScaleFactor (scaleFactorControl r v)
   \<and> globalScaleFactor (scaleFactorControl r v) \<le> 15000
   \<and> (r < 1000 \<longrightarrow> globalScaleFactor (scaleFactorControl r v) = 1000)
   \<and> (15000 < r \<longrightarrow> globalScaleFactor (scaleFactorControl r v) = 15000)
   \<and> (1000 \<le> r \<and> r \<le> 15000 \<longrightarrow> globalScaleFactor (scaleFactorControl r v) = r)"
  by (simp add: scaleFactorControl_def setGlobalScaleFactor_def Slider_def)

theorem scaleFactorControl_clamps_witness:
  "globalScaleFactor (scaleFactorControl 500 (initialView 8000)) = 1000
   \<and> globalScaleFactor (scaleFactorControl 20000 (initialView 8000)) = 15000
   \<and> globalScaleFactor (scaleFactorControl 1250 (initialView 8000)) = 1250"
  using scaleFactorControl_clamps [of 500 "initialView 8000"]
        scaleFactorControl_clamps [of 20000 "initialView 8000"]
        scaleFactorControl_clamps [of 1250 "initialView 8000"]
  by simp

text \<open>No event takes the zoom out of \<open>[0.1, 10]\<close>; only the wheel changes it.\<close>

lemma scale_handleEvent:
  "1/10 \<le> scale v \<and> scale v \<le> 10 \<Longrightarrow>
   1/10 \<le> scale (handleEvent v e) \<and> scale (handleEvent v e) \<le> 10"
  by (cases e)
     (simp_all add: handleWheel_def handleMouseDown_def handleMouseMove_def handleMouseUp_def
        handleRotate_def scaleFactorControl_def setGlobalScaleFactor_def)

lemma scale_runEvents:
  "1/10 \<le> scale v \<and> scale v \<le> 10 \<Longrightarrow>
   1/10 \<le> scale (runEvents v es) \<and> scale (runEvents v es) \<le> 10"
  unfolding runEvents_def
proof (induction es arbitrary: v)
  case Nil
  then show ?case by simp
next
  case (Cons e es)
  have "1/10 \<le> scale (handleEvent v e) \<and> scale (handleEvent v e) \<le> 10"
    by (rule scale_handleEvent [OF Cons.prems])
  from Cons.IH [OF this] show ?case
    by simp
qed

text \<open>
  Claim C3. For every wheel event, the new zoom is
  \<open>max 0.1 (min 10 (s + d * 0.05))\<close> with \<open>d = -1\<close> when the wheel delta is positive
  and \<open>d = 1\<close> otherwise. The new zoom lies in \<open>[0.1, 10]\<close>, a step that would cross a
  bound lands exactly on it, and a zoom that starts in the interval stays there under
  every sequence of events.
\<close>

theorem handleWheel_clamped:
  "scale (handleWheel deltaY v)
     = max 0.1 (min 10 (scale v + (if deltaY > 0 then - 1 else 1) * 0.05))
   \<and> 0.1 \<le> scale (handleWheel deltaY v) \<and> scale (handleWheel deltaY v) \<le> 10
   \<and> (scale v + (if deltaY > 0 then - 1 else 1) * 0.05 < 0.1
         \<longrightarrow> scale (handleWheel deltaY v) = 0.1)
   \<and> (10 < scale v + (if deltaY > 0 then - 1 else 1) * 0.05
         \<longrightarrow> scale (handleWheel deltaY v) = 10)
   \<and> (0.1 \<le> scale v \<and> scale v \<le> 10
         \<longrightarrow> 0.1 \<le> scale (runEvents v es) \<and> scale (runEvents v es) \<le> 10)"
  using scale_runEvents [of v es]
  by (simp add: handleWheel_def wheelDirection_def zoomFactor_def)

theorem handleWheel_clamped_witness:
  "scale (handleWheel 3 (initialView 8000\<lparr>scale := 0.1\<rparr>)) = 0.1
   \<and> scale (handleWheel (- 3) (initialView 8000\<lparr>scale := 10\<rparr>)) = 10
   \<and> scale (handleWheel (- 3) (initialView 8000)) = 1.05
   \<and> scale (runEvents (initialView 8000) [Wheel 3, RotateClick, Wheel 3]) \<le> 10"
  using handleWheel_clamped [of 3 "initialView 8000\<lparr>scale := 0.1\<rparr>" "[]"]
        handleWheel_clamped [of "- 3" "initialView 8000\<lparr>scale := 10\<rparr>" "[]"]
        handleWheel_clamped [of "- 3" "initialView 8000" "[Wheel 3, RotateClick, Wheel 3]"]
  by (simp add: initialView_def)

section \<open>Rotation\<close>


lemma jsRem_of_int:
  assumes "0 \<le> k"
  shows "jsRem (of_int k) 360 = of_int (k mod 360)"
proof -
  have q: "\<lfloor>(of_int k :: real) / 360\<rfloor> = k div 360"
    using floor_divide_of_int_eq [of k 360, where ?'a = real] by simp
  have "(0::real) \<le> of_int k / 360"
    using assms by simp
  then have "jsTrunc (of_int k / 360) = k div 360"
    using q by (simp add: jsTrunc_def)
  then have "jsRem (of_int k) 360 = of_int k - 360 * of_int (k div 360)"
    by (simp add: jsRem_def)
  also have "\<dots> = of_int (k - 360 * (k div 360))"
    by simp
  also have "k - 360 * (k div 360) = k mod 360"
    by (simp add: minus_mult_div_eq_mod)
  finally show ?thesis .
qed

lemma jsRem_quadrants:
  "jsRem (0 + 90) 360 = 90" "jsRem (90 + 90) 360 = 180"
  "jsRem (180 + 90) 360 = 270" "jsRem (270 + 90) 360 = 0"
  "jsRem (0 + 180) 360 = 180" "jsRem (90 + 180) 360 = 270"
  "jsRem (180 + 180) 360 = 0" "jsRem (270 + 180) 360 = 90"
  by (simp_all add: jsRem_def jsTrunc_def)

lemma rotation_handleEvent:
  "rotation v \<in> quadrants \<Longrightarrow> rotation (handleEvent v e) \<in> quadrants"
  by (cases e)
     (auto simp: quadrants_def handleWheel_def handleMouseDown_def handleMouseMove_def
        handleMouseUp_def handleRotate_def scaleFactorControl_def setGlobalScaleFactor_def
        jsRem_def jsTrunc_def)

lemma rotation_runEvents:
  "rotation v \<in> quadrants \<Longrightarrow> rotation (runEvents v es) \<in> quadrants"
  unfolding runEvents_def
  by (induction es arbitrary: v) (simp_all add: rotation_handleEvent)

lemma rotation_other_event:
  "e \<noteq> RotateClick \<Longrightarrow> rotation (handleEvent v e) = rotation v"
  by (cases e)
     (simp_all add: handleWheel_def handleMouseDown_def handleMouseMove_def
        handleMouseUp_def scaleFactorControl_def setGlobalScaleFactor_def)

text \<open>
  Claim C8. The rotate action takes the quadrant \<open>r\<close> to \<open>(r + 90) mod 360\<close>, so 0 to
  90, 90 to 180, 180 to 270 and 270 to 0. The view starts at 0, every other event
  leaves the quadrant as it is, and so after every sequence of events the quadrant is
  one of 0, 90, 180 and 270. The first conjunct is about integer quadrants from
  \<open>-90\<close> on, where the remainder operator of the language agrees with \<open>mod\<close>.
\<close>

theorem handleRotate_cycle:
  "(0 \<le> k + 90 \<longrightarrow>
      rotation (handleRotate (v\<lparr>rotation := of_int k\<rparr>)) = of_int ((k + 90) mod 360))
   \<and> rotation (handleRotate (v\<lparr>rotation := 0\<rparr>)) = 90
   \<and> rotation (handleRotate (v\<lparr>rotation := 90\<rparr>)) = 180
   \<and> rotation (handleRotate (v\<lparr>rotation := 180\<rparr>)) = 270
   \<and> rotation (handleRotate (v\<lparr>rotation := 270\<rparr>)) = 0
   \<and> rotation (initialView g) = 0
   \<and> rotation (runEvents (initialView g) es) \<in> {0, 90, 180, 270}
   \<and> (e \<noteq> RotateClick \<longrightarrow> rotation (handleEvent v e) = rotation v)"
proof -
  have "0 \<le> k + 90 \<longrightarrow>
      rotation (handleRotate (v\<lparr>rotation := of_int k\<rparr>)) = of_int ((k + 90) mod 360)"
    using jsRem_of_int [of "k + 90"] by (simp add: handleRotate_def)
  moreover have "rotation (runEvents (initialView g) es) \<in> {0, 90, 180, 270}"
    using rotation_runEvents [of "initialView g" es]
    by (simp add: quadrants_def initialView_def)
  moreover have "e \<noteq> RotateClick \<longrightarrow> rotation (handleEvent v e) = rotation v"
    by (simp add: rotation_other_event)
  ultimately show ?thesis
    using jsRem_quadrants by (simp add: handleRotate_def initialView_def)
qed

theorem handleRotate_cycle_witness:
  "rotation (handleRotate (initialView 8000\<lparr>rotation := of_int 270\<rparr>)) = 0
   \<and> rotation (handleEvent (initialView 8000) (Wheel 1)) = 0"
  using handleRotate_cycle [of 270 "initialView 8000" 8000 "[]" "Wheel 1"]
  by (simp add: initialView_def)

text \<open>
  Claim C10. For a rotation value other than 0, 90, 180 and 270 the device transform
  and the wire transform give the screen coordinates of rotation 0: the default branch
  of either switch repeats the first case. Both transforms are total functions, so no
  rotation value fails.
\<close>

theorem default_branch_is_zero:
  assumes "r \<notin> {0, 90, 180, 270}"
  shows "deviceScreen (v\<lparr>rotation := r\<rparr>) b d = deviceScreen (v\<lparr>rotation := 0\<rparr>) b d
         \<and> wireScreen (v\<lparr>rotation := r\<rparr>) b sp ep = wireScreen (v\<lparr>rotation := 0\<rparr>) b sp ep"
  using assms by (simp add: deviceScreen_def wireScreen_def Let_def)


theorem default_branch_is_zero_witness:
  "deviceScreen (initialView 8000\<lparr>rotation := 45\<rparr>) 0.9 plainDevice
     = deviceScreen (initialView 8000\<lparr>rotation := 0\<rparr>) 0.9 plainDevice
   \<and> deviceScreen (initialView 8000\<lparr>rotation := 45\<rparr>) 0.9 plainDevice = (7200, 0)"
  using default_branch_is_zero [of 45 "initialView 8000" "0.9" plainDevice]
  by (simp add: deviceScreen_def localScaleFactor_def initialView_def plainDevice_def Let_def)

section \<open>The transform\<close>


text \<open>
  Claim C1, as stated, fails for a device whose position carries the scale factor 0:
  the claim takes \<open>f = 0\<close> and places the device at the pan origin, while
  \<^verbatim>\<open>drawDevice\<close> falls back to the factor 1.
\<close>

theorem transform_formula_counterexample:
  "deviceScreen (initialView 1) 1 zeroFactorDevice
     \<noteq> specTransform (rotation (initialView 1)) (scale (initialView 1)) (pan (initialView 1))
          1 (globalScaleFactor (initialView 1)) (specLocalFactor zeroFactorDevice) (position zeroFactorDevice)"
  by (simp add: deviceScreen_def specTransform_def specLocalFactor_def localScaleFactor_def
      initialView_def zeroFactorDevice_def Let_def)

text \<open>
  Claim C1, amended. For a quadrant among 0, 90, 180 and 270, both transforms compute
  \<open>scaledX = x * g\<close> and \<open>scaledZ = z * g\<close> and return the four formulas of the
  specification with \<open>k = b * s * f\<close>. For a wire end \<open>f\<close> is 1. For a device \<open>f\<close> is
  the scale factor of its position when that is present and not zero, and 1 when it is
  absent or zero.
\<close>

theorem transform_formula:
  assumes "rotation v \<in> quadrants"
  shows "deviceScreen v b d
           = specTransform (rotation v) (scale v) (pan v) b (globalScaleFactor v)
               (localScaleFactor d) (position d)
         \<and> wireScreen v b sp ep
           = (specTransform (rotation v) (scale v) (pan v) b (globalScaleFactor v) 1 sp,
              specTransform (rotation v) (scale v) (pan v) b (globalScaleFactor v) 1 ep)
         \<and> (scaleFactor (position d) \<noteq> Some 0 \<longrightarrow> localScaleFactor d = specLocalFactor d)
         \<and> (scaleFactor (position d) = Some 0 \<longrightarrow> localScaleFactor d = 1)"
proof -
  have dev: "deviceScreen v b d
           = specTransform (rotation v) (scale v) (pan v) b (globalScaleFactor v)
               (localScaleFactor d) (position d)"
    using assms
    by (auto simp: quadrants_def deviceScreen_def specTransform_def Let_def)
  have wir: "wireScreen v b sp ep
           = (specTransform (rotation v) (scale v) (pan v) b (globalScaleFactor v) 1 sp,
              specTransform (rotation v) (scale v) (pan v) b (globalScaleFactor v) 1 ep)"
    using assms
    by (auto simp: quadrants_def wireScreen_def specTransform_def Let_def)
  have loc: "(scaleFactor (position d) \<noteq> Some 0 \<longrightarrow> localScaleFactor d = specLocalFactor d)
         \<and> (scaleFactor (position d) = Some 0 \<longrightarrow> localScaleFactor d = 1)"
    by (simp add: localScaleFactor_def specLocalFactor_def split: option.splits)
  from dev wir loc show ?thesis by simp
qed

theorem transform_formula_witness:
  "deviceScreen (initialView 1000\<lparr>rotation := 90\<rparr>) 0.9
      (zeroFactorDevice\<lparr>position := \<lparr>pos_x = 1, pos_y = 0, pos_z = 2, scaleFactor = Some 2\<rparr>\<rparr>)
     = (- 3600, 1800)"
  using transform_formula [of "initialView 1000\<lparr>rotation := 90\<rparr>" "0.9"
      "zeroFactorDevice\<lparr>position := \<lparr>pos_x = 1, pos_y = 0, pos_z = 2, scaleFactor = Some 2\<rparr>\<rparr>"]
  by (simp add: quadrants_def initialView_def zeroFactorDevice_def specTransform_def
      localScaleFactor_def specLocalFactor_def Let_def)

text \<open>
  Claim C4. With the pan at \<open>(0, 0)\<close> and a quadrant \<open>Q\<close> among 0, 90, 180 and 270,
  the screen point at quadrant \<open>Q\<close> is the negative, in both coordinates, of the screen
  point at quadrant \<open>(Q + 180) % 360\<close>; this holds for a device and for both ends of a
  wire.
\<close>

theorem half_turn_negates:
  assumes "q \<in> quadrants" and "pan v = \<lparr>pt_x = 0, pt_y = 0\<rparr>"
  shows "deviceScreen (v\<lparr>rotation := q\<rparr>) b d
           = (- fst (deviceScreen (v\<lparr>rotation := jsRem (q + 180) 360\<rparr>) b d),
              - snd (deviceScreen (v\<lparr>rotation := jsRem (q + 180) 360\<rparr>) b d))
         \<and> fst (wireScreen (v\<lparr>rotation := q\<rparr>) b sp ep)
           = (- fst (fst (wireScreen (v\<lparr>rotation := jsRem (q + 180) 360\<rparr>) b sp ep)),
              - snd (fst (wireScreen (v\<lparr>rotation := jsRem (q + 180) 360\<rparr>) b sp ep)))
         \<and> snd (wireScreen (v\<lparr>rotation := q\<rparr>) b sp ep)
           = (- fst (snd (wireScreen (v\<lparr>rotation := jsRem (q + 180) 360\<rparr>) b sp ep)),
              - snd (snd (wireScreen (v\<lparr>rotation := jsRem (q + 180) 360\<rparr>) b sp ep)))"
proof -
  from assms(1) consider "q = 0" | "q = 90" | "q = 180" | "q = 270"
    by (auto simp: quadrants_def)
  then show ?thesis
  proof cases
    case 1
    have "jsRem (q + 180) 360 = 180" by (simp add: 1 jsRem_def jsTrunc_def)
    then show ?thesis using assms(2) 1
      by (simp add: deviceScreen_def wireScreen_def Let_def)
  next
    case 2
    have "jsRem (q + 180) 360 = 270" by (simp add: 2 jsRem_def jsTrunc_def)
    then show ?thesis using assms(2) 2
      by (simp add: deviceScreen_def wireScreen_def Let_def)
  next
    case 3
    have "jsRem (q + 180) 360 = 0" by (simp add: 3 jsRem_def jsTrunc_def)
    then show ?thesis using assms(2) 3
      by (simp add: deviceScreen_def wireScreen_def Let_def)
  next
    case 4
    have "jsRem (q + 180) 360 = 90" by (simp add: 4 jsRem_def jsTrunc_def)
    then show ?thesis using assms(2) 4
      by (simp add: deviceScreen_def wireScreen_def Let_def)
  qed
qed

theorem half_turn_negates_witness:
  "deviceScreen (initialView 1000\<lparr>rotation := 270\<rparr>) 0.9 zeroFactorDevice
     = (- fst (deviceScreen (initialView 1000\<lparr>rotation := jsRem (270 + 180) 360\<rparr>) 0.9 zeroFactorDevice),
        - snd (deviceScreen (initialView 1000\<lparr>rotation := jsRem (270 + 180) 360\<rparr>) 0.9 zeroFactorDevice))"
  using half_turn_negates [of 270 "initialView 1000" "0.9" zeroFactorDevice]
  by (simp add: quadrants_def initialView_def)


section \<open>Zoom and distance from the pan origin\<close>


lemma sqrt_scaled:
  fixes a b k :: real
  shows "sqrt ((a * k)\<^sup>2 + (b * k)\<^sup>2) = \<bar>k\<bar> * sqrt (a\<^sup>2 + b\<^sup>2)"
proof -
  have "(a * k)\<^sup>2 + (b * k)\<^sup>2 = k\<^sup>2 * (a\<^sup>2 + b\<^sup>2)"
    by (simp add: power2_eq_square algebra_simps)
  then show ?thesis
    by (simp add: real_sqrt_mult)
qed

lemma offsetMagnitude_scaled:
  fixes a b k :: real
  assumes "fst sp = a * k + pt_x p \<or> fst sp = - a * k + pt_x p"
      and "snd sp = b * k + pt_y p \<or> snd sp = - b * k + pt_y p"
  shows "offsetMagnitude p sp = \<bar>k\<bar> * sqrt (a\<^sup>2 + b\<^sup>2)"
proof -
  have "(fst sp - pt_x p)\<^sup>2 = (a * k)\<^sup>2"
    using assms(1) by (auto simp: power2_eq_square)
  moreover have "(snd sp - pt_y p)\<^sup>2 = (b * k)\<^sup>2"
    using assms(2) by (auto simp: power2_eq_square)
  ultimately show ?thesis
    by (simp add: offsetMagnitude_def sqrt_scaled)
qed

lemma deviceScreen_offset:
  "offsetMagnitude (pan v) (deviceScreen v b d)
     = \<bar>(globalScaleFactor v * b * localScaleFactor d) * scale v\<bar>
       * sqrt ((pos_x (position d))\<^sup>2 + (pos_z (position d))\<^sup>2)"
proof -
  let ?k = "(globalScaleFactor v * b * localScaleFactor d) * scale v"
  let ?x = "pos_x (position d)" and ?z = "pos_z (position d)"
  have "offsetMagnitude (pan v) (deviceScreen v b d) = \<bar>?k\<bar> * sqrt (?x\<^sup>2 + ?z\<^sup>2)
        \<or> offsetMagnitude (pan v) (deviceScreen v b d) = \<bar>?k\<bar> * sqrt (?z\<^sup>2 + ?x\<^sup>2)"
  proof (cases "rotation v = 90 \<or> rotation v = 270")
    case True
    have "offsetMagnitude (pan v) (deviceScreen v b d) = \<bar>?k\<bar> * sqrt (?z\<^sup>2 + ?x\<^sup>2)"
      by (rule offsetMagnitude_scaled)
         (use True in \<open>auto simp: deviceScreen_def Let_def algebra_simps\<close>)
    then show ?thesis ..
  next
    case False
    have "offsetMagnitude (pan v) (deviceScreen v b d) = \<bar>?k\<bar> * sqrt (?x\<^sup>2 + ?z\<^sup>2)"
      by (rule offsetMagnitude_scaled)
         (use False in \<open>auto simp: deviceScreen_def Let_def algebra_simps\<close>)
    then show ?thesis ..
  qed
  then show ?thesis
    by (auto simp: add.commute)
qed


lemma wireScreen_offset:
  "offsetMagnitude (pan v) (fst (wireScreen v b sp ep))
     = \<bar>(globalScaleFactor v * b) * scale v\<bar> * sqrt ((pos_x sp)\<^sup>2 + (pos_z sp)\<^sup>2)
   \<and> offsetMagnitude (pan v) (snd (wireScreen v b sp ep))
     = \<bar>(globalScaleFactor v * b) * scale v\<bar> * sqrt ((pos_x ep)\<^sup>2 + (pos_z ep)\<^sup>2)"
proof -
  let ?k = "(globalScaleFactor v * b) * scale v"
  have "\<forall>p \<in> {(fst (wireScreen v b sp ep), sp), (snd (wireScreen v b sp ep), ep)}.
          offsetMagnitude (pan v) (fst p) = \<bar>?k\<bar> * sqrt ((pos_x (snd p))\<^sup>2 + (pos_z (snd p))\<^sup>2)
        \<or> offsetMagnitude (pan v) (fst p) = \<bar>?k\<bar> * sqrt ((pos_z (snd p))\<^sup>2 + (pos_x (snd p))\<^sup>2)"
  proof (cases "rotation v = 90 \<or> rotation v = 270")
    case True
    have "offsetMagnitude (pan v) (fst (wireScreen v b sp ep))
            = \<bar>?k\<bar> * sqrt ((pos_z sp)\<^sup>2 + (pos_x sp)\<^sup>2)"
      by (rule offsetMagnitude_scaled)
         (use True in \<open>auto simp: wireScreen_def Let_def algebra_simps\<close>)
    moreover have "offsetMagnitude (pan v) (snd (wireScreen v b sp ep))
            = \<bar>?k\<bar> * sqrt ((pos_z ep)\<^sup>2 + (pos_x ep)\<^sup>2)"
      by (rule offsetMagnitude_scaled)
         (use True in \<open>auto simp: wireScreen_def Let_def algebra_simps\<close>)
    ultimately show ?thesis by simp
  next
    case False
    have "offsetMagnitude (pan v) (fst (wireScreen v b sp ep))
            = \<bar>?k\<bar> * sqrt ((pos_x sp)\<^sup>2 + (pos_z sp)\<^sup>2)"
      by (rule offsetMagnitude_scaled)
         (use False in \<open>auto simp: wireScreen_def Let_def algebra_simps\<close>)
    moreover have "offsetMagnitude (pan v) (snd (wireScreen v b sp ep))
            = \<bar>?k\<bar> * sqrt ((pos_x ep)\<^sup>2 + (pos_z ep)\<^sup>2)"
      by (rule offsetMagnitude_scaled)
         (use False in \<open>auto simp: wireScreen_def Let_def algebra_simps\<close>)
    ultimately show ?thesis by simp
  qed
  then show ?thesis
    by (auto simp: add.commute)
qed

lemma localScaleFactor_nonzero: "localScaleFactor d \<noteq> 0"
  by (simp add: localScaleFactor_def split: option.splits)

lemma radius_positive:
  fixes a c :: real
  assumes "(a, c) \<noteq> (0, 0)"
  shows "0 < sqrt (a\<^sup>2 + c\<^sup>2)"
proof -
  from assms have "a \<noteq> 0 \<or> c \<noteq> 0" by simp
  then have "0 < a\<^sup>2 + c\<^sup>2"
    by (auto simp: sum_power2_gt_zero_iff)
  then show ?thesis by simp
qed

lemma growing_offset:
  fixes c r s1 s2 :: real
  assumes "c \<noteq> 0" and "0 < r" and "0 \<le> s1" and "s1 < s2"
  shows "\<bar>c * s1\<bar> * r < \<bar>c * s2\<bar> * r"
proof -
  have "\<bar>c\<bar> * s1 < \<bar>c\<bar> * s2"
    using assms(1,4) by simp
  moreover have "\<bar>c * s1\<bar> = \<bar>c\<bar> * s1" and "\<bar>c * s2\<bar> = \<bar>c\<bar> * s2"
    using assms(3,4) by (simp_all add: abs_mult)
  ultimately show ?thesis
    using assms(2) by (simp add: mult_strict_right_mono)
qed

text \<open>
  Claim C5, as stated, fails when the base scale is zero, which is the base scale of a
  canvas of height zero: the device stays on the pan origin at zoom 1 and at zoom 2.
\<close>

theorem zoom_monotone_counterexample:
  "\<not> offsetMagnitude (pan (initialView 8000))
         (deviceScreen (initialView 8000\<lparr>scale := 1\<rparr>) (baseScaleOf flatCanvas) plainDevice)
     < offsetMagnitude (pan (initialView 8000))
         (deviceScreen (initialView 8000\<lparr>scale := 2\<rparr>) (baseScaleOf flatCanvas) plainDevice)"
  by (simp add: offsetMagnitude_def deviceScreen_def baseScaleOf_def flatCanvas_def
      initialView_def Let_def)

text \<open>
  Claim C5, amended. When the base scale and the global scale factor are both different
  from zero, the distance between the screen point and the pan origin grows strictly
  with the zoom, over all zooms from 0 on and hence over \<open>[0.1, 10]\<close>, for every
  world position other than the origin, every rotation value and every pan. This holds
  for a device, whose local factor is never zero, and for both ends of a wire.
\<close>

theorem zoom_monotone:
  assumes "b \<noteq> 0" and "globalScaleFactor v \<noteq> 0" and "0 \<le> s1" and "s1 < s2"
  shows "((pos_x (position d), pos_z (position d)) \<noteq> (0, 0) \<longrightarrow>
            offsetMagnitude (pan v) (deviceScreen (v\<lparr>scale := s1\<rparr>) b d)
              < offsetMagnitude (pan v) (deviceScreen (v\<lparr>scale := s2\<rparr>) b d))
         \<and> ((pos_x sp, pos_z sp) \<noteq> (0, 0) \<longrightarrow>
            offsetMagnitude (pan v) (fst (wireScreen (v\<lparr>scale := s1\<rparr>) b sp ep))
              < offsetMagnitude (pan v) (fst (wireScreen (v\<lparr>scale := s2\<rparr>) b sp ep)))
         \<and> ((pos_x ep, pos_z ep) \<noteq> (0, 0) \<longrightarrow>
            offsetMagnitude (pan v) (snd (wireScreen (v\<lparr>scale := s1\<rparr>) b sp ep))
              < offsetMagnitude (pan v) (snd (wireScreen (v\<lparr>scale := s2\<rparr>) b sp ep)))"
proof -
  have dev: "offsetMagnitude (pan v) (deviceScreen (v\<lparr>scale := s\<rparr>) b d)
        = \<bar>(globalScaleFactor v * b * localScaleFactor d) * s\<bar>
          * sqrt ((pos_x (position d))\<^sup>2 + (pos_z (position d))\<^sup>2)" for s
    using deviceScreen_offset [of "v\<lparr>scale := s\<rparr>" b d] by simp
  have wir: "offsetMagnitude (pan v) (fst (wireScreen (v\<lparr>scale := s\<rparr>) b sp ep))
        = \<bar>(globalScaleFactor v * b) * s\<bar> * sqrt ((pos_x sp)\<^sup>2 + (pos_z sp)\<^sup>2)
      \<and> offsetMagnitude (pan v) (snd (wireScreen (v\<lparr>scale := s\<rparr>) b sp ep))
        = \<bar>(globalScaleFactor v * b) * s\<bar> * sqrt ((pos_x ep)\<^sup>2 + (pos_z ep)\<^sup>2)" for s
    using wireScreen_offset [of "v\<lparr>scale := s\<rparr>" b sp ep] by simp
  have c1: "globalScaleFactor v * b * localScaleFactor d \<noteq> 0"
    using assms(1,2) localScaleFactor_nonzero [of d] by simp
  have c2: "globalScaleFactor v * b \<noteq> 0"
    using assms(1,2) by simp
  show ?thesis
    using growing_offset [OF c1 radius_positive assms(3,4)]
          growing_offset [OF c2 radius_positive assms(3,4)]
    by (simp add: dev wir)
qed

theorem zoom_monotone_witness:
  "offsetMagnitude (pan (initialView 8000))
       (deviceScreen (initialView 8000\<lparr>scale := 1\<rparr>) 0.9 plainDevice)
     < offsetMagnitude (pan (initialView 8000))
       (deviceScreen (initialView 8000\<lparr>scale := 2\<rparr>) 0.9 plainDevice)"
  using zoom_monotone [of "0.9" "initialView 8000" 1 2 plainDevice]
  by (simp add: initialView_def plainDevice_def)

section \<open>Node resolution and wires\<close>

text \<open>
  Either screen point of a wire depends on the position of its own end only, which is
  what \<open>segmentOps\<close> relies on.
\<close>

lemma wireScreen_ends:
  "fst (wireScreen v b sp ep) = fst (wireScreen v b sp sp)
   \<and> snd (wireScreen v b sp ep) = snd (wireScreen v b ep ep)"
  by (simp add: wireScreen_def Let_def)

lemma find_app:
  "find P (xs @ ys) = (case find P xs of None \<Rightarrow> find P ys | Some x \<Rightarrow> Some x)"
  by (induction xs) simp_all

lemma find_SomeD:
  "find P xs = Some x \<Longrightarrow> x \<in> set xs \<and> P x"
  by (induction xs) (auto split: if_splits)

lemma registerNodes:
  "foldl (\<lambda>np nodeId. if isJunction d then np(nodeId \<mapsto> position d) else np) np0 ns n
     = (if isJunction d \<and> n \<in> set ns then Some (position d) else np0 n)"
  by (induction ns arbitrary: np0) auto

lemma registerNodes_fun:
  "foldl (\<lambda>np nodeId. if isJunction d then np(nodeId \<mapsto> position d) else np) np0 ns
     = (\<lambda>n. if isJunction d \<and> n \<in> set ns then Some (position d) else np0 n)"
  by (rule ext) (rule registerNodes)

lemma registerDevices:
  "foldl (\<lambda>np d n. if isJunction d \<and> n \<in> set (device.nodes d)
                    then Some (position d) else np n) np0 ds n
     = (case find (\<lambda>j. isJunction j \<and> listedBy n j) (rev ds) of
          Some j \<Rightarrow> Some (position j)
        | None \<Rightarrow> np0 n)"
proof (induction ds arbitrary: np0)
  case Nil
  then show ?case by simp
next
  case (Cons d ds)
  show ?case
    by (auto simp: Cons.IH find_app listedBy_def split: option.splits)
qed

lemma calculateNodePositions_last_junction:
  "calculateNodePositions ds n
     = map_option position (find (\<lambda>j. isJunction j \<and> listedBy n j) (rev ds))"
  unfolding calculateNodePositions_def registerNodes_fun
  by (simp add: registerDevices split: option.splits)

lemma calculateNodePositions_Some:
  assumes "calculateNodePositions ds n = Some p"
  shows "\<exists>j \<in> set ds. junctionListing ds n j \<and> p = position j"
proof -
  from assms obtain j where j: "find (\<lambda>j. isJunction j \<and> listedBy n j) (rev ds) = Some j"
    and p: "p = position j"
    by (auto simp: calculateNodePositions_last_junction)
  from find_SomeD [OF j] have "j \<in> set ds" and "isJunction j" and "listedBy n j"
    by simp_all
  with p show ?thesis
    by (auto simp: junctionListing_def)
qed

lemma calculateNodePositions_None:
  "calculateNodePositions ds n = None \<longleftrightarrow> \<not> (\<exists>j \<in> set ds. junctionListing ds n j)"
  by (auto simp: calculateNodePositions_last_junction find_None_iff junctionListing_def)

lemma findDevice_first:
  assumes "findDevice ds n = Some d"
  shows "\<exists>i < length ds. firstListing ds n i \<and> d = ds ! i"
  using assms unfolding findDevice_def firstListing_def listedBy_def find_Some_iff
  by blast

lemma findDevice_listed:
  assumes "\<exists>d \<in> set ds. listedBy n d"
  shows "\<exists>d. findDevice ds n = Some d"
proof (cases "findDevice ds n")
  case None
  with assms show ?thesis
    by (auto simp: findDevice_def find_None_iff listedBy_def)
next
  case (Some d)
  then show ?thesis by simp
qed

text \<open>
  A read of the table at a junction's node yields the position of a junction, whatever
  the key is.
\<close>

lemma nodePositionsGet_registered:
  "calculateNodePositions ds n = Some p \<Longrightarrow>
   nodePositionsGet (calculateNodePositions ds) n = JsPosition p"
  by (simp add: nodePositionsGet_def)

text \<open>
  A read at a node of no junction yields \<^verbatim>\<open>undefined\<close> when the key is not a
  property name of \<^verbatim>\<open>Object.prototype\<close> and no junction lists \<^verbatim>\<open>__proto__\<close>.
\<close>

lemma nodePositionsGet_plain:
  assumes "calculateNodePositions ds n = None"
      and "n \<notin> set objectPrototypeKeys"
      and "calculateNodePositions ds ''__proto__'' = None"
  shows "nodePositionsGet (calculateNodePositions ds) n = JsUndefined"
  using assms by (simp add: nodePositionsGet_def objectPrototypeGet_def)

lemma endpoint_resolvesTo:
  assumes "findDevice ds n = Some d"
      and "n \<notin> set objectPrototypeKeys"
      and "calculateNodePositions ds ''__proto__'' = None"
  shows "\<exists>p. orElse (nodePositionsGet (calculateNodePositions ds) n) (JsPosition (position d))
               = JsPosition p \<and> resolvesTo ds n p"
proof (cases "calculateNodePositions ds n")
  case None
  then have "\<not> (\<exists>j \<in> set ds. junctionListing ds n j)"
    by (simp add: calculateNodePositions_None)
  moreover from findDevice_first [OF assms(1)]
  have "\<exists>i < length ds. firstListing ds n i \<and> position d = position (ds ! i)"
    by auto
  ultimately have "resolvesTo ds n (position d)"
    by (simp add: resolvesTo_def)
  moreover have "orElse (nodePositionsGet (calculateNodePositions ds) n) (JsPosition (position d))
                   = JsPosition (position d)"
    by (simp add: orElse_def nodePositionsGet_plain [OF None assms(2,3)])
  ultimately show ?thesis by blast
next
  case (Some p)
  from calculateNodePositions_Some [OF Some]
  have ex: "\<exists>j \<in> set ds. junctionListing ds n j \<and> p = position j" .
  then have "\<exists>j \<in> set ds. junctionListing ds n j" by blast
  with ex have "resolvesTo ds n p"
    by (simp add: resolvesTo_def)
  moreover have "orElse (nodePositionsGet (calculateNodePositions ds) n) (JsPosition (position d))
                   = JsPosition p"
    by (simp add: orElse_def nodePositionsGet_registered [OF Some])
  ultimately show ?thesis by blast
qed

text \<open>
  Away from the inherited names the resolution is as the specification says: for a
  wire that is drawn, either end is the position of a junction listing its node when
  there is one, and otherwise the position of the first device listing it.
\<close>

lemma resolution_outside_inherited_keys:
  assumes "wire.nodes w = a # b # rest"
      and "\<exists>d \<in> set ds. listedBy a d"
      and "\<exists>d \<in> set ds. listedBy b d"
      and "a \<notin> set objectPrototypeKeys"
      and "b \<notin> set objectPrototypeKeys"
      and "calculateNodePositions ds ''__proto__'' = None"
  shows "\<exists>startPos endPos.
           wireEndpoints ds (calculateNodePositions ds) w
             = Some (JsPosition startPos, JsPosition endPos)
           \<and> resolvesTo ds a startPos \<and> resolvesTo ds b endPos"
proof -
  from findDevice_listed [OF assms(2)] obtain sd where sd: "findDevice ds a = Some sd" ..
  from findDevice_listed [OF assms(3)] obtain ed where ed: "findDevice ds b = Some ed" ..
  have "wireEndpoints ds (calculateNodePositions ds) w
          = Some (orElse (nodePositionsGet (calculateNodePositions ds) a) (JsPosition (position sd)),
                  orElse (nodePositionsGet (calculateNodePositions ds) b) (JsPosition (position ed)))"
    by (simp add: wireEndpoints_def assms(1) sd ed)
  with endpoint_resolvesTo [OF sd assms(4,6)] endpoint_resolvesTo [OF ed assms(5,6)]
  show ?thesis
    by auto
qed

lemma inherited_kinds: "\<not> isJunction inheritedKeyDevice"
  by (simp add: isJunction_def inheritedKeyDevice_def toLowerCase_def toLowerChar_def)

text \<open>
  Claim C6 at a node named \<^verbatim>\<open>toString\<close> that no junction lists. The claim gives the
  start of the wire the position of the first device listing the node, and
  \<^verbatim>\<open>devices.find\<close> does find that device. The table has no entry for the node, yet
  the read \<^verbatim>\<open>nodePositions["toString"]\<close> yields the inherited function, which is
  truthy, so the start is that function and not the position of the device;
  \<^verbatim>\<open>moveTo\<close> is called with \<^verbatim>\<open>NaN\<close> for both coordinates.
\<close>

theorem inherited_key_endpoint:
  "calculateNodePositions [inheritedKeyDevice] ''toString'' = None
   \<and> findDevice [inheritedKeyDevice] ''toString'' = Some inheritedKeyDevice
   \<and> wireEndpoints [inheritedKeyDevice] (calculateNodePositions [inheritedKeyDevice])
        inheritedKeyWire
       = Some (JsOther, JsPosition (position inheritedKeyDevice))
   \<and> JsOther \<noteq> JsPosition (position inheritedKeyDevice)
   \<and> drawWire (initialView 1000) smallCanvas inheritedKeyWire [inheritedKeyDevice]
        (calculateNodePositions [inheritedKeyDevice]) (baseScaleOf smallCanvas)
       = emit smallCanvas
           [BeginPath, MoveToNaN, LineTo 900 0, StrokeStyle ''#0a84ff'', LineWidth 2, Stroke]"
proof -
  let ?ds = "[inheritedKeyDevice]"
  have np: "calculateNodePositions ?ds = Map.empty"
    by (simp add: calculateNodePositions_def inherited_kinds)
       (simp add: inheritedKeyDevice_def)
  have fd: "findDevice ?ds ''toString'' = Some inheritedKeyDevice"
           "findDevice ?ds ''n2'' = Some inheritedKeyDevice"
    by (simp_all add: findDevice_def inheritedKeyDevice_def)
  have ends: "wireEndpoints ?ds (calculateNodePositions ?ds) inheritedKeyWire
                = Some (JsOther, JsPosition (position inheritedKeyDevice))"
    by (simp add: wireEndpoints_def inheritedKeyWire_def fd np nodePositionsGet_def
        objectPrototypeGet_def objectPrototypeKeys_def orElse_def)
  have bs: "baseScaleOf smallCanvas = 0.9"
    by (simp add: baseScaleOf_def smallCanvas_def)
  have scr: "wireScreen (initialView 1000) 0.9 (position inheritedKeyDevice)
               (position inheritedKeyDevice) = ((900, 0), (900, 0))"
    by (simp add: wireScreen_def initialView_def inheritedKeyDevice_def Let_def)
  have "drawWire (initialView 1000) smallCanvas inheritedKeyWire ?ds
          (calculateNodePositions ?ds) (baseScaleOf smallCanvas)
        = emit smallCanvas
            [BeginPath, MoveToNaN, LineTo 900 0, StrokeStyle ''#0a84ff'', LineWidth 2, Stroke]"
    by (simp add: drawWire_def ends bs segmentOps_def scr) (simp add: initialView_def)
  with np fd ends show ?thesis
    by simp
qed

lemma dangling_no_endpoints:
  assumes "dangling ds w"
  shows "wireEndpoints ds np w = None"
proof (cases "wire.nodes w")
  case Nil
  then show ?thesis by (simp add: wireEndpoints_def)
next
  case (Cons a as)
  show ?thesis
  proof (cases as)
    case Nil
    with Cons show ?thesis by (simp add: wireEndpoints_def)
  next
    case (Cons b rest)
    with \<open>wire.nodes w = a # as\<close> assms
    have "(\<forall>d \<in> set ds. \<not> listedBy a d) \<or> (\<forall>d \<in> set ds. \<not> listedBy b d)"
      by (auto simp: dangling_def)
    then have "findDevice ds a = None \<or> findDevice ds b = None"
      by (auto simp: findDevice_def find_None_iff listedBy_def)
    with Cons \<open>wire.nodes w = a # as\<close> show ?thesis
      by (auto simp: wireEndpoints_def split: option.splits)
  qed
qed

text \<open>
  Claim C7. When one of the two ends of a wire is listed by no device, \<^verbatim>\<open>drawWire\<close>
  returns the drawing surface as it received it, for every node table; the function is
  total, so nothing is raised. The frame drawn with such a wire among the wires is the
  frame drawn without it.
\<close>

theorem dangling_wire_skipped:
  assumes "dangling ds w"
  shows "drawWire v ctx w ds np b = ctx
         \<and> draw measureText v (Some c) (Some \<lparr>devices = ds, wires = before @ w # after\<rparr>)
           = draw measureText v (Some c) (Some \<lparr>devices = ds, wires = before @ after\<rparr>)"
proof -
  have skip: "drawWire v ctx w ds np b = ctx" for ctx np b
    by (simp add: drawWire_def dangling_no_endpoints [OF assms])
  then show ?thesis
    by (simp add: draw_def Let_def)
qed

lemma scenario_kinds:
  "\<not> isJunction (scenarioR1 y)" "isJunction (scenarioJ1 y)"
  by (simp_all add: isJunction_def scenarioR1_def scenarioJ1_def toLowerCase_def toLowerChar_def)

theorem dangling_wire_skipped_witness:
  "drawWire (initialView 1000) smallCanvas looseWire [scenarioR1 0, scenarioJ1 0]
       (calculateNodePositions [scenarioR1 0, scenarioJ1 0]) 0.9 = smallCanvas
   \<and> draw (\<lambda>px label. 0) (initialView 1000) (Some smallCanvas)
        (Some \<lparr>devices = [scenarioR1 0, scenarioJ1 0], wires = [scenarioW1] @ looseWire # []\<rparr>)
     = draw (\<lambda>px label. 0) (initialView 1000) (Some smallCanvas)
        (Some \<lparr>devices = [scenarioR1 0, scenarioJ1 0], wires = [scenarioW1] @ []\<rparr>)"
proof -
  have "dangling [scenarioR1 0, scenarioJ1 0] looseWire"
    by (simp add: dangling_def looseWire_def listedBy_def scenarioR1_def scenarioJ1_def)
  from dangling_wire_skipped [OF this] show ?thesis
    by blast
qed

text \<open>
  Claim C9. In the example scenario the resolver maps \<open>n1\<close> to the position of the
  junction J1, which is \<open>{x: 1, z: 0}\<close>, and leaves \<open>n2\<close> unresolved; the start of W1 is
  drawn at the screen point \<open>(900, 0)\<close>; the end of W1 uses the position of R1. The base
  scale 0.9 is that of a canvas of 1000 by 1000 pixels.
\<close>

theorem example_scenario:
  "calculateNodePositions [scenarioR1 yR, scenarioJ1 yJ] ''n1''
     = Some \<lparr>pos_x = 1, pos_y = yJ, pos_z = 0, scaleFactor = None\<rparr>
   \<and> calculateNodePositions [scenarioR1 yR, scenarioJ1 yJ] ''n2'' = None
   \<and> wireEndpoints [scenarioR1 yR, scenarioJ1 yJ]
        (calculateNodePositions [scenarioR1 yR, scenarioJ1 yJ]) scenarioW1
       = Some (JsPosition (position (scenarioJ1 yJ)), JsPosition (position (scenarioR1 yR)))
   \<and> wireScreen (initialView 1000) 0.9 (position (scenarioJ1 yJ)) (position (scenarioR1 yR))
       = ((900, 0), (900, 0))
   \<and> baseScaleOf smallCanvas = 0.9
   \<and> drawWire (initialView 1000) smallCanvas scenarioW1 [scenarioR1 yR, scenarioJ1 yJ]
        (calculateNodePositions [scenarioR1 yR, scenarioJ1 yJ]) (baseScaleOf smallCanvas)
       = emit smallCanvas
           [BeginPath, MoveTo 900 0, LineTo 900 0, StrokeStyle ''#0a84ff'', LineWidth 2, Stroke]"
proof -
  let ?ds = "[scenarioR1 yR, scenarioJ1 yJ]"
  have n1: "calculateNodePositions ?ds ''n1''
              = Some \<lparr>pos_x = 1, pos_y = yJ, pos_z = 0, scaleFactor = None\<rparr>"
    by (simp add: calculateNodePositions_def scenario_kinds)
       (simp add: scenarioJ1_def scenarioR1_def)
  have n2: "calculateNodePositions ?ds ''n2'' = None"
    by (simp add: calculateNodePositions_def scenario_kinds)
       (simp add: scenarioJ1_def scenarioR1_def)
  have pr: "calculateNodePositions ?ds ''__proto__'' = None"
    by (simp add: calculateNodePositions_def scenario_kinds)
       (simp add: scenarioJ1_def scenarioR1_def)
  have g1: "nodePositionsGet (calculateNodePositions ?ds) ''n1''
              = JsPosition (position (scenarioJ1 yJ))"
    by (simp add: nodePositionsGet_def n1) (simp add: scenarioJ1_def)
  have g2: "nodePositionsGet (calculateNodePositions ?ds) ''n2'' = JsUndefined"
    by (simp add: nodePositionsGet_def n2 pr objectPrototypeGet_def objectPrototypeKeys_def)
  have ends: "wireEndpoints ?ds (calculateNodePositions ?ds) scenarioW1
                = Some (JsPosition (position (scenarioJ1 yJ)),
                        JsPosition (position (scenarioR1 yR)))"
    by (simp add: wireEndpoints_def scenarioW1_def findDevice_def g1 g2 orElse_def)
       (simp add: scenarioJ1_def scenarioR1_def)
  have scr: "wireScreen (initialView 1000) 0.9 (position (scenarioJ1 yJ)) (position (scenarioR1 yR))
               = ((900, 0), (900, 0))"
    by (simp add: wireScreen_def initialView_def scenarioJ1_def scenarioR1_def Let_def)
  have bs: "baseScaleOf smallCanvas = 0.9"
    by (simp add: baseScaleOf_def smallCanvas_def)
  have "drawWire (initialView 1000) smallCanvas scenarioW1 ?ds
          (calculateNodePositions ?ds) (baseScaleOf smallCanvas)
        = emit smallCanvas
            [BeginPath, MoveTo 900 0, LineTo 900 0, StrokeStyle ''#0a84ff'', LineWidth 2, Stroke]"
    by (simp add: drawWire_def ends bs segmentOps_def scr) (simp add: initialView_def)
  with n1 n2 ends scr bs show ?thesis
    by simp
qed

end
